theory Spec2Isabelle
  imports Main "HOL-Library.Sublist"
begin

section \<open>The decision tree of \<open>eduml/tree/_decision_tree.py\<close>\<close>

text \<open>
  The class \<open>DecisionTree\<close> builds a binary tree by greedy recursive partitioning
  (\<open>fit\<close>, \<open>_split\<close>) and walks it for every query row (\<open>predict\<close>). The
  object is a record that every method takes and returns; a raise of the Python is a
  value \<open>Inl e\<close>; a recursion that never comes back is the value \<open>None\<close>.

  Names follow the source. Fields whose Python name is a single letter or clashes with
  a constant of HOL carry a suffix: \<open>size_n\<close>, \<open>values_n\<close>, \<open>type_n\<close>, \<open>p_n\<close>,
  \<open>val_n\<close>, \<open>split_n\<close> for the fields \<open>size\<close>, \<open>values\<close>, \<open>type\<close>, \<open>p\<close>,
  \<open>val\<close>, \<open>split\<close> of a node, and \<open>X_s\<close>, \<open>y_s\<close>, \<open>n_s\<close> for the fields
  \<open>X\<close>, \<open>y\<close>, \<open>n\<close> of the tree object. The method \<open>_split\<close> is \<open>split_node\<close>,
  \<open>_is_pure\<close> is \<open>is_pure\<close>, \<open>_check_criterion\<close> is \<open>check_criterion\<close>.
\<close>

subsection \<open>Errors\<close>

datatype error = ValidationError | TypeError | IndexError | AttributeError | InvalidStateError

subsection \<open>Nodes\<close>

text \<open>
  The class \<open>Node\<close> lives in \<open>_node.py\<close>, which is not among the sources. The fields
  are those that \<open>_decision_tree.py\<close> reads and writes; a field that was never
  assigned is \<open>None\<close>.
\<close>

datatype ('v, 'q) node = Node
  (size_n: int)
  (values_n: "nat list")
  (depth: int)
  (type_n: "string option")
  (loss: "'v option")
  (p_n: "nat option")
  (val_n: "'v option")
  (split_n: "(int \<times> int) option")
  (left: "('v, 'q) node option")
  (right: "('v, 'q) node option")
  (prediction: "'q option")

text \<open>
  Modelled from the spec: the constructor \<open>Node(size, values, depth, _type)\<close> of the
  missing \<open>_node.py\<close>. A node is constructed with its sample indices, its depth and an
  unresolved state: no rule, no children, no prediction.
\<close>

definition new_node :: "int \<Rightarrow> nat list \<Rightarrow> int \<Rightarrow> string option \<Rightarrow> ('v, 'q) node" where
  "new_node sz vs d ty = Node sz vs d ty None None None None None None None"

text \<open>
  Modelled from the spec: \<open>Node.is_leaf\<close> of the missing \<open>_node.py\<close>, true iff the
  state is \<open>leaf\<close>. The builder seals a node by \<open>curr.type = 'leaf'\<close>.
\<close>

definition is_leaf :: "('v, 'q) node \<Rightarrow> bool" where
  "is_leaf nd = (type_n nd = Some ''leaf'')"

text \<open>Assignments to the fields of a node: \<open>curr.type = t\<close>, \<open>curr.prediction = q\<close>, ...\<close>

definition set_type :: "string \<Rightarrow> ('v, 'q) node \<Rightarrow> ('v, 'q) node" where
  "set_type ty nd = Node (size_n nd) (values_n nd) (depth nd) (Some ty) (loss nd) (p_n nd)
     (val_n nd) (split_n nd) (left nd) (right nd) (prediction nd)"

definition set_prediction :: "'q \<Rightarrow> ('v, 'q) node \<Rightarrow> ('v, 'q) node" where
  "set_prediction q nd = Node (size_n nd) (values_n nd) (depth nd) (type_n nd) (loss nd) (p_n nd)
     (val_n nd) (split_n nd) (left nd) (right nd) (Some q)"

definition set_rule :: "'v \<Rightarrow> nat \<Rightarrow> 'v \<Rightarrow> ('v, 'q) node \<Rightarrow> ('v, 'q) node" where
  "set_rule lo p v nd = Node (size_n nd) (values_n nd) (depth nd) (type_n nd) (Some lo) (Some p)
     (Some v) (split_n nd) (left nd) (right nd) (prediction nd)"

definition set_split :: "int \<times> int \<Rightarrow> ('v, 'q) node \<Rightarrow> ('v, 'q) node" where
  "set_split sp nd = Node (size_n nd) (values_n nd) (depth nd) (type_n nd) (loss nd) (p_n nd)
     (val_n nd) (Some sp) (left nd) (right nd) (prediction nd)"

definition set_left :: "('v, 'q) node \<Rightarrow> ('v, 'q) node \<Rightarrow> ('v, 'q) node" where
  "set_left l nd = Node (size_n nd) (values_n nd) (depth nd) (type_n nd) (loss nd) (p_n nd)
     (val_n nd) (split_n nd) (Some l) (right nd) (prediction nd)"

definition set_right :: "('v, 'q) node \<Rightarrow> ('v, 'q) node \<Rightarrow> ('v, 'q) node" where
  "set_right r nd = Node (size_n nd) (values_n nd) (depth nd) (type_n nd) (loss nd) (p_n nd)
     (val_n nd) (split_n nd) (left nd) (Some r) (prediction nd)"

subsection \<open>The tree object and its collaborators\<close>

text \<open>
  \<open>__init__\<close>: the training data and the root start as \<open>None\<close>, the two counters at 0.
  A limit that was not given is \<open>math.inf\<close>, here \<open>None\<close>.
\<close>

record ('x, 'l, 'v, 'q) decision_tree =
  X_s :: "'x list option"
  y_s :: "'l list option"
  n_s :: "int option"
  root :: "('v, 'q) node option"
  num_nodes :: int
  num_leaf_nodes :: int
  max_depth :: "int option"
  max_nodes :: "int option"
  max_leaf_nodes :: "int option"
  min_nodes_per_leaf :: int

definition DecisionTree ::
  "int option \<Rightarrow> int option \<Rightarrow> int option \<Rightarrow> int \<Rightarrow> ('x, 'l, 'v, 'q) decision_tree" where
  "DecisionTree md mn ml mnpl =
     \<lparr>X_s = None, y_s = None, n_s = None, root = None, num_nodes = 0, num_leaf_nodes = 0,
      max_depth = md, max_nodes = mn, max_leaf_nodes = ml, min_nodes_per_leaf = mnpl\<rparr>"

text \<open>
  What the class takes from elsewhere, as parameters: the validation functions of
  \<open>utils\<close>, which may raise; the impurity function \<open>self.criterion\<close>, the selector
  \<open>_best_split\<close> and the leaf evaluation \<open>_evaluate_leaf\<close>, which the subclasses
  define; and the routing rule of \<open>Node.decision\<close>, a function of the stored feature
  index and threshold and of the row. The selector returns the pair of a loss and
  either \<open>None\<close> or a feature index with a threshold.
\<close>

record ('x, 'l, 'v, 'q) collab =
  validate_feature_matrix :: "'x list \<Rightarrow> error + 'x list"
  validate_target_vector :: "'l list \<Rightarrow> error + 'l list"
  check_consistent_length :: "'x list \<Rightarrow> 'l list \<Rightarrow> error + unit"
  criterion :: "'l list \<Rightarrow> 'v"
  best_split :: "'x list \<Rightarrow> 'l list \<Rightarrow> 'v \<times> (nat \<times> 'v) option"
  evaluate_leaf :: "('v, 'q) node \<Rightarrow> 'q"
  decision :: "nat \<Rightarrow> 'v \<Rightarrow> 'x \<Rightarrow> bool"

text \<open>
  Modelled from the spec: \<open>Node.decision(x)\<close> of the missing \<open>_node.py\<close> evaluates the
  stored rule against the row; on a node without a rule it is an invalid-state error.
\<close>

definition decision_n :: "('x, 'l, 'v, 'q) collab \<Rightarrow> ('v, 'q) node \<Rightarrow> 'x \<Rightarrow> error + bool" where
  "decision_n E nd x =
     (case p_n nd of None \<Rightarrow> Inl InvalidStateError
      | Some p \<Rightarrow> (case val_n nd of None \<Rightarrow> Inl InvalidStateError
          | Some v \<Rightarrow> Inr (decision E p v x)))"

subsection \<open>Indexing\<close>

text \<open>
  \<open>self.X[i]\<close> and \<open>self.X[curr.values]\<close>: subscripting \<open>None\<close> raises TypeError, an
  index beyond the last row raises IndexError. The indices are naturals, so none is
  negative.
\<close>

definition row_at :: "'a list option \<Rightarrow> nat \<Rightarrow> error + 'a" where
  "row_at A i =
     (case A of None \<Rightarrow> Inl TypeError
      | Some xs \<Rightarrow> if i < length xs then Inr (xs ! i) else Inl IndexError)"

definition rows_at :: "'a list option \<Rightarrow> nat list \<Rightarrow> error + 'a list" where
  "rows_at A ixs =
     (case A of None \<Rightarrow> Inl TypeError
      | Some xs \<Rightarrow> if list_all (\<lambda>i. i < length xs) ixs then Inr (map (\<lambda>i. xs ! i) ixs)
                   else Inl IndexError)"

subsection \<open>Stopping criteria\<close>

text \<open>\<open>a < limit\<close> where the limit is an integer or \<open>math.inf\<close>.\<close>

definition lt_limit :: "int \<Rightarrow> int option \<Rightarrow> bool" where
  "lt_limit a lim = (case lim of None \<Rightarrow> True | Some m \<Rightarrow> a < m)"

definition is_pure ::
  "('x, 'l, 'v::zero, 'q) collab \<Rightarrow> ('x, 'l, 'v, 'q) decision_tree \<Rightarrow> ('v, 'q) node \<Rightarrow> error + bool" where
  "is_pure E self nd =
     (case rows_at (y_s self) (values_n nd) of Inl e \<Rightarrow> Inl e
      | Inr ys \<Rightarrow> Inr (criterion E ys = 0))"

definition check_criterion :: "('x, 'l, 'v, 'q) decision_tree \<Rightarrow> ('v, 'q) node \<Rightarrow> bool" where
  "check_criterion self nd =
     (let depth_not_reached = lt_limit (depth nd) (max_depth self);
          max_nodes_not_reached = lt_limit (num_nodes self) (max_nodes self);
          max_leaf_nodes_not_reached = lt_limit (num_leaf_nodes self) (max_leaf_nodes self);
          can_split = (size_n nd > 1)
      in depth_not_reached \<and> max_nodes_not_reached \<and> max_leaf_nodes_not_reached \<and> can_split)"

subsection \<open>Splitting\<close>

text \<open>
  Sealing a node, the three lines that \<open>_split\<close> has at each of its three exits:
  \<open>node.type = 'leaf'\<close>, \<open>node.prediction = self._evaluate_leaf(node)\<close>,
  \<open>self.num_leaf_nodes += 1\<close>.
\<close>

definition make_leaf ::
  "('x, 'l, 'v, 'q) collab \<Rightarrow> ('x, 'l, 'v, 'q) decision_tree \<Rightarrow> ('v, 'q) node \<Rightarrow>
   ('x, 'l, 'v, 'q) decision_tree \<times> ('v, 'q) node" where
  "make_leaf E self nd =
     (let nd1 = set_type ''leaf'' nd;
          nd2 = set_prediction (evaluate_leaf E nd1) nd1
      in (self\<lparr>num_leaf_nodes := num_leaf_nodes self + 1\<rparr>, nd2))"

text \<open>\<open>sum(train_decisions)\<close>: the number of rows that the rule sends right.\<close>

definition sum_bools :: "bool list \<Rightarrow> int" where
  "sum_bools ds = sum_list (map (\<lambda>d. if d then 1 else 0) ds)"

text \<open>
  The loop \<open>for i in curr.values\<close> that appends \<open>i\<close> to \<open>next_values[0]\<close> when the
  decision on \<open>self.X[i]\<close> is false and to \<open>next_values[1]\<close> otherwise.
\<close>

fun next_values_loop ::
  "('x \<Rightarrow> bool) \<Rightarrow> 'x list option \<Rightarrow> nat list \<Rightarrow> nat list \<times> nat list \<Rightarrow> error + nat list \<times> nat list" where
  "next_values_loop d A [] acc = Inr acc"
| "next_values_loop d A (i # ixs) acc =
     (case row_at A i of Inl e \<Rightarrow> Inl e
      | Inr x \<Rightarrow> if \<not> d x then next_values_loop d A ixs (fst acc @ [i], snd acc)
                 else next_values_loop d A ixs (fst acc, snd acc @ [i]))"

text \<open>
  \<open>_split\<close>. The result is \<open>None\<close> when the recursion never returns, \<open>Some (Inl e)\<close>
  when it raises \<open>e\<close>, and \<open>Some (Inr (self', curr'))\<close> with the updated counters and
  the finished subtree otherwise. The selector is called twice on the same arguments
  (lines 120 and 128); it is a function, so both calls agree.
\<close>

partial_function (option) split_node ::
  "('x, 'l, 'v::zero, 'q) collab \<Rightarrow> ('x, 'l, 'v, 'q) decision_tree \<Rightarrow> ('v, 'q) node \<Rightarrow>
   (error + ('x, 'l, 'v, 'q) decision_tree \<times> ('v, 'q) node) option" where
  "split_node E self cur =
     (case rows_at (X_s self) (values_n cur) of Inl e \<Rightarrow> Some (Inl e)
      | Inr X \<Rightarrow>
     (case rows_at (y_s self) (values_n cur) of Inl e \<Rightarrow> Some (Inl e)
      | Inr y \<Rightarrow>
     (case snd (best_split E X y) of
        None \<Rightarrow> Some (Inr (make_leaf E self cur))
      | Some best_pair \<Rightarrow>
         (let cur1 = set_rule (fst (best_split E X y)) (fst best_pair) (snd best_pair) cur;
              train_decisions = map (decision E (fst best_pair) (snd best_pair)) X;
              cur2 = set_split (size_n cur1 - sum_bools train_decisions,
                                 sum_bools train_decisions) cur1
          in (case next_values_loop (decision E (fst best_pair) (snd best_pair)) (X_s self)
                     (values_n cur2) ([], []) of
                Inl e \<Rightarrow> Some (Inl e)
              | Inr next_values \<Rightarrow>
                 (let left0 = new_node (size_n cur2 - sum_bools train_decisions)
                                (fst next_values) (depth cur2 + 1) None;
                      self1 = self\<lparr>num_nodes := num_nodes self + 1\<rparr>
                  in Option.bind
                       (case is_pure E self1 left0 of Inl e \<Rightarrow> Some (Inl e)
                        | Inr pure \<Rightarrow>
                            if \<not> pure \<and> check_criterion self1 left0
                            then split_node E self1 left0
                            else Some (Inr (make_leaf E self1 left0)))
                       (\<lambda>res_left. case res_left of Inl e \<Rightarrow> Some (Inl e)
                        | Inr sl \<Rightarrow>
                           (let cur3 = set_left (snd sl) cur2;
                                right0 = new_node (sum_bools train_decisions)
                                           (snd next_values) (depth cur3 + 1) None;
                                self3 = (fst sl)\<lparr>num_nodes := num_nodes (fst sl) + 1\<rparr>
                            in Option.bind
                                 (case is_pure E self3 right0 of Inl e \<Rightarrow> Some (Inl e)
                                  | Inr pure \<Rightarrow>
                                      if \<not> pure \<and> check_criterion self3 right0
                                      then split_node E self3 right0
                                      else Some (Inr (make_leaf E self3 right0)))
                                 (\<lambda>res_right. case res_right of Inl e \<Rightarrow> Some (Inl e)
                                  | Inr sr \<Rightarrow>
                                      Some (Inr (fst sr, set_right (snd sr) cur3)))))))))))"

declare split_node.simps [code]

subsection \<open>fit\<close>

text \<open>
  \<open>fit\<close> stores the validated data, creates the root over the indices \<open>0, ..., n - 1\<close>
  at depth 1, counts it, and splits it. Nothing in \<open>fit\<close> sets the two counters back.
  At the end \<open>self.root\<close> is the node that \<open>_split\<close> has finished in place. The state
  that a raising call leaves behind is not part of the result.
\<close>

definition fit ::
  "('x, 'l, 'v::zero, 'q) collab \<Rightarrow> ('x, 'l, 'v, 'q) decision_tree \<Rightarrow> 'x list \<Rightarrow> 'l list \<Rightarrow>
   (error + ('x, 'l, 'v, 'q) decision_tree) option" where
  "fit E self X y =
     (case validate_feature_matrix E X of Inl e \<Rightarrow> Some (Inl e)
      | Inr Xv \<Rightarrow>
     (case validate_target_vector E y of Inl e \<Rightarrow> Some (Inl e)
      | Inr yv \<Rightarrow>
     (case check_consistent_length E X y of Inl e \<Rightarrow> Some (Inl e)
      | Inr u \<Rightarrow>
         (let self1 = self\<lparr>X_s := Some Xv, y_s := Some yv, n_s := Some (int (length Xv))\<rparr>;
              root0 = new_node (int (length Xv)) [0..<length Xv] 1 (Some ''root'');
              self2 = self1\<lparr>root := Some root0, num_nodes := num_nodes self1 + 1\<rparr>
          in Option.bind (split_node E self2 root0)
               (\<lambda>res. case res of Inl e \<Rightarrow> Some (Inl e)
                | Inr sr \<Rightarrow> Some (Inr ((fst sr)\<lparr>root := Some (snd sr)\<rparr>)))))))"

subsection \<open>predict\<close>

text \<open>
  The inner loop of \<open>predict\<close> for one row: from \<open>self.root\<close> down to a leaf. Calling
  \<open>is_leaf\<close> on \<open>None\<close> raises AttributeError. A tree is finite, so the loop ends.
\<close>

function predict_row ::
  "('x, 'l, 'v, 'q) collab \<Rightarrow> ('v, 'q) node option \<Rightarrow> 'x \<Rightarrow> error + 'q option" where
  "predict_row E None x = Inl AttributeError"
| "predict_row E (Some nd) x =
     (if is_leaf nd then Inr (prediction nd)
      else (case decision_n E nd x of Inl e \<Rightarrow> Inl e
            | Inr b \<Rightarrow> if b then predict_row E (right nd) x else predict_row E (left nd) x))"
  by pat_completeness auto
termination
proof (relation "measure (\<lambda>(E, t, x). size_option size t)")
  show "wf (measure (\<lambda>(E, t, x). size_option size t))"
    by simp
next
  fix E :: "('x, 'l, 'v, 'q) collab" and nd :: "('v, 'q) node" and x :: 'x and b :: bool
  show "((E, right nd, x), (E, Some nd, x)) \<in> measure (\<lambda>(E, t, x). size_option size t)"
    by (cases nd) simp
  show "((E, left nd, x), (E, Some nd, x)) \<in> measure (\<lambda>(E, t, x). size_option size t)"
    by (cases nd) simp
qed

text \<open>The outer loop: one prediction per row, in order; the first raise ends it.\<close>

fun predict_rows ::
  "('x, 'l, 'v, 'q) collab \<Rightarrow> ('v, 'q) node option \<Rightarrow> 'x list \<Rightarrow> error + 'q option list" where
  "predict_rows E rt [] = Inr []"
| "predict_rows E rt (x # xs) =
     (case predict_row E rt x of Inl e \<Rightarrow> Inl e
      | Inr q \<Rightarrow> (case predict_rows E rt xs of Inl e \<Rightarrow> Inl e | Inr qs \<Rightarrow> Inr (q # qs)))"

definition predict ::
  "('x, 'l, 'v, 'q) collab \<Rightarrow> ('x, 'l, 'v, 'q) decision_tree \<Rightarrow> 'x list \<Rightarrow> error + 'q option list" where
  "predict E self X =
     (case validate_feature_matrix E X of Inl e \<Rightarrow> Inl e
      | Inr rows \<Rightarrow> predict_rows E (root self) rows)"

subsection \<open>Traversals used to state the properties\<close>

text \<open>
  All nodes reachable from a node through \<open>left\<close> and \<open>right\<close>, the node first: the
  traversal of \<open>__str__\<close>, which follows every child that is not \<open>None\<close>.
\<close>

fun nodes_of :: "('v, 'q) node \<Rightarrow> ('v, 'q) node list" where
  "nodes_of (Node sz vs d ty lo p v sp l r q) =
     Node sz vs d ty lo p v sp l r q #
       (case l of None \<Rightarrow> [] | Some l' \<Rightarrow> nodes_of l') @
       (case r of None \<Rightarrow> [] | Some r' \<Rightarrow> nodes_of r')"

definition count_nodes :: "('v, 'q) node \<Rightarrow> int" where
  "count_nodes t = int (length (nodes_of t))"

definition count_leaves :: "('v, 'q) node \<Rightarrow> int" where
  "count_leaves t = int (length (filter is_leaf (nodes_of t)))"

text \<open>The number of levels of a tree: 1 for a single node.\<close>

fun levels :: "('v, 'q) node \<Rightarrow> int" where
  "levels (Node sz vs d ty lo p v sp l r q) =
     1 + max (case l of None \<Rightarrow> 0 | Some l' \<Rightarrow> levels l')
             (case r of None \<Rightarrow> 0 | Some r' \<Rightarrow> levels r')"

subsection \<open>The steps of \<open>_split\<close>, named for the proofs\<close>

text \<open>
  What \<open>_split\<close> computes before it looks at the children: the node with its rule and
  split sizes, and the two fresh children.
\<close>

definition children ::
  "('x, 'l, 'v, 'q) collab \<Rightarrow> 'x list \<Rightarrow> ('v, 'q) node \<Rightarrow> 'v \<Rightarrow> nat \<Rightarrow> 'v \<Rightarrow>
   ('v, 'q) node \<times> ('v, 'q) node \<times> ('v, 'q) node" where
  "children E xs cur lo p v =
     (let go_right = (\<lambda>i. decision E p v (xs ! i));
          s = sum_bools (map go_right (values_n cur))
      in (set_split (size_n cur - s, s) (set_rule lo p v cur),
          new_node (size_n cur - s) (filter (\<lambda>i. \<not> go_right i) (values_n cur)) (depth cur + 1) None,
          new_node s (filter go_right (values_n cur)) (depth cur + 1) None))"

definition prepare ::
  "('x, 'l, 'v, 'q) collab \<Rightarrow> ('x, 'l, 'v, 'q) decision_tree \<Rightarrow> ('v, 'q) node \<Rightarrow>
   error + (('v, 'q) node \<times> ('v, 'q) node \<times> ('v, 'q) node) option" where
  "prepare E self cur =
     (case rows_at (X_s self) (values_n cur) of Inl e \<Rightarrow> Inl e
      | Inr X \<Rightarrow>
     (case rows_at (y_s self) (values_n cur) of Inl e \<Rightarrow> Inl e
      | Inr y \<Rightarrow>
     (case best_split E X y of
        (lo, None) \<Rightarrow> Inr None
      | (lo, Some (p, v)) \<Rightarrow> Inr (Some (children E (the (X_s self)) cur lo p v)))))"

text \<open>The decision taken for each child: split it further or seal it.\<close>

definition grow ::
  "(('x, 'l, 'v, 'q) decision_tree \<Rightarrow> ('v, 'q) node \<Rightarrow>
      (error + ('x, 'l, 'v, 'q) decision_tree \<times> ('v, 'q) node) option) \<Rightarrow>
   ('x, 'l, 'v::zero, 'q) collab \<Rightarrow> ('x, 'l, 'v, 'q) decision_tree \<Rightarrow> ('v, 'q) node \<Rightarrow>
   (error + ('x, 'l, 'v, 'q) decision_tree \<times> ('v, 'q) node) option" where
  "grow f E self child =
     (case is_pure E self child of Inl e \<Rightarrow> Some (Inl e)
      | Inr pure \<Rightarrow> if \<not> pure \<and> check_criterion self child then f self child
                    else Some (Inr (make_leaf E self child)))"

definition split_body ::
  "(('x, 'l, 'v, 'q) decision_tree \<Rightarrow> ('v, 'q) node \<Rightarrow>
      (error + ('x, 'l, 'v, 'q) decision_tree \<times> ('v, 'q) node) option) \<Rightarrow>
   ('x, 'l, 'v::zero, 'q) collab \<Rightarrow> ('x, 'l, 'v, 'q) decision_tree \<Rightarrow> ('v, 'q) node \<Rightarrow>
   (error + ('x, 'l, 'v, 'q) decision_tree \<times> ('v, 'q) node) option" where
  "split_body f E self cur =
     (case prepare E self cur of Inl e \<Rightarrow> Some (Inl e)
      | Inr None \<Rightarrow> Some (Inr (make_leaf E self cur))
      | Inr (Some ch) \<Rightarrow>
          Option.bind (grow f E (self\<lparr>num_nodes := num_nodes self + 1\<rparr>) (fst (snd ch)))
            (\<lambda>rl. case rl of Inl e \<Rightarrow> Some (Inl e)
             | Inr sl \<Rightarrow>
                Option.bind
                  (grow f E ((fst sl)\<lparr>num_nodes := num_nodes (fst sl) + 1\<rparr>) (snd (snd ch)))
                  (\<lambda>rr. case rr of Inl e \<Rightarrow> Some (Inl e)
                   | Inr sr \<Rightarrow>
                       Some (Inr (fst sr, set_right (snd sr) (set_left (snd sl) (fst ch)))))))"

text \<open>
  The outcome of that decision, for a property \<open>P\<close> of the recursive calls: the child
  was split and \<open>P\<close> holds of the call, or it was sealed.
\<close>

definition grown ::
  "(('x, 'l, 'v, 'q) decision_tree \<Rightarrow> ('v, 'q) node \<Rightarrow> ('x, 'l, 'v, 'q) decision_tree \<Rightarrow>
      ('v, 'q) node \<Rightarrow> bool) \<Rightarrow>
   ('x, 'l, 'v::zero, 'q) collab \<Rightarrow> ('x, 'l, 'v, 'q) decision_tree \<Rightarrow> ('v, 'q) node \<Rightarrow>
   ('x, 'l, 'v, 'q) decision_tree \<Rightarrow> ('v, 'q) node \<Rightarrow> bool" where
  "grown P E s c s' t =
     (case is_pure E s c of Inl e \<Rightarrow> False
      | Inr pure \<Rightarrow> if \<not> pure \<and> check_criterion s c then P s c s' t
                    else (s', t) = make_leaf E s c)"

text \<open>What \<open>_split\<close> leaves alone in the tree object, and the direction of the counters.\<close>

definition frame :: "('x, 'l, 'v, 'q) decision_tree \<Rightarrow> ('x, 'l, 'v, 'q) decision_tree \<Rightarrow> bool" where
  "frame s s' = (X_s s' = X_s s \<and> y_s s' = y_s s \<and> n_s s' = n_s s \<and> root s' = root s \<and>
     max_depth s' = max_depth s \<and> max_nodes s' = max_nodes s \<and>
     max_leaf_nodes s' = max_leaf_nodes s \<and> min_nodes_per_leaf s' = min_nodes_per_leaf s \<and>
     num_nodes s \<le> num_nodes s' \<and> num_leaf_nodes s \<le> num_leaf_nodes s')"

subsection \<open>Collaborators for the examples\<close>

text \<open>
  Rows are lists of integers, labels and predictions are integers. The rule sends a row
  right when its feature is at least the threshold. The impurity is 0 when at most one
  label occurs. The leaf value is the label of the first sample of the leaf.
\<close>

definition midpoint_split :: "int list list \<Rightarrow> int list \<Rightarrow> int \<times> (nat \<times> int) option" where
  "midpoint_split X y =
     (if X = [] then (0, None)
      else (let fs = map (\<lambda>x. x ! 0) X; lo = fold min fs (hd fs); hi = fold max fs (hd fs)
            in if lo = hi then (0, None) else (1, Some (0, (lo + hi + 1) div 2))))"

definition first_label :: "int list \<Rightarrow> (int, int) node \<Rightarrow> int" where
  "first_label ys nd =
     (case values_n nd of [] \<Rightarrow> 0 | i # ixs \<Rightarrow> if i < length ys then ys ! i else 0)"

text \<open>A selector that splits feature 0 between its least and its greatest value.\<close>

definition E_mid :: "int list \<Rightarrow> (int list, int, int, int) collab" where
  "E_mid ys =
     \<lparr>validate_feature_matrix = Inr, validate_target_vector = Inr,
      check_consistent_length =
        (\<lambda>X y. if length X = length y then Inr () else Inl ValidationError),
      criterion = (\<lambda>ls. if length (remdups ls) \<le> 1 then 0 else 1),
      best_split = midpoint_split,
      evaluate_leaf = first_label ys,
      decision = (\<lambda>p v x. x ! p \<ge> v)\<rparr>"

text \<open>A selector that always proposes feature 0 with threshold 0.\<close>

definition E_const :: "int list \<Rightarrow> (int list, int, int, int) collab" where
  "E_const ys = (E_mid ys)\<lparr>best_split := (\<lambda>X y. (1, Some (0, 0)))\<rparr>"

section \<open>Basic facts\<close>

lemmas node_defs = set_type_def set_prediction_def set_rule_def set_split_def set_left_def
  set_right_def new_node_def

lemma make_leaf_eq:
  "(s', t) = make_leaf E s c \<longleftrightarrow>
     s' = s\<lparr>num_leaf_nodes := num_leaf_nodes s + 1\<rparr> \<and>
     t = set_prediction (evaluate_leaf E (set_type ''leaf'' c)) (set_type ''leaf'' c)"
  by (auto simp: make_leaf_def Let_def)

lemma rows_at_SomeD:
  "rows_at A ixs = Inr X \<Longrightarrow>
     \<exists>xs. A = Some xs \<and> list_all (\<lambda>i. i < length xs) ixs \<and> X = map (\<lambda>i. xs ! i) ixs"
  by (auto simp: rows_at_def split: option.splits if_splits)

text \<open>The loop over \<open>curr.values\<close> is a stable partition.\<close>

lemma next_values_loop_filter:
  assumes "list_all (\<lambda>i. i < length xs) ixs"
  shows "next_values_loop d (Some xs) ixs acc =
     Inr (fst acc @ filter (\<lambda>i. \<not> d (xs ! i)) ixs, snd acc @ filter (\<lambda>i. d (xs ! i)) ixs)"
  using assms by (induction ixs arbitrary: acc) (simp_all add: row_at_def)

section \<open>The recursion of \<open>_split\<close>\<close>

text \<open>The body of \<open>_split\<close> over any function \<open>f\<close> for the recursive calls, in steps.\<close>

lemma body_eq:
  "(case rows_at (X_s self) (values_n cur) of Inl e \<Rightarrow> Some (Inl e)
      | Inr X \<Rightarrow>
     (case rows_at (y_s self) (values_n cur) of Inl e \<Rightarrow> Some (Inl e)
      | Inr y \<Rightarrow>
     (case snd (best_split E X y) of
        None \<Rightarrow> Some (Inr (make_leaf E self cur))
      | Some best_pair \<Rightarrow>
         (let cur1 = set_rule (fst (best_split E X y)) (fst best_pair) (snd best_pair) cur;
              train_decisions = map (decision E (fst best_pair) (snd best_pair)) X;
              cur2 = set_split (size_n cur1 - sum_bools train_decisions,
                                 sum_bools train_decisions) cur1
          in (case next_values_loop (decision E (fst best_pair) (snd best_pair)) (X_s self)
                     (values_n cur2) ([], []) of
                Inl e \<Rightarrow> Some (Inl e)
              | Inr next_values \<Rightarrow>
                 (let left0 = new_node (size_n cur2 - sum_bools train_decisions)
                                (fst next_values) (depth cur2 + 1) None;
                      self1 = self\<lparr>num_nodes := num_nodes self + 1\<rparr>
                  in Option.bind
                       (case is_pure E self1 left0 of Inl e \<Rightarrow> Some (Inl e)
                        | Inr pure \<Rightarrow>
                            if \<not> pure \<and> check_criterion self1 left0
                            then f E self1 left0
                            else Some (Inr (make_leaf E self1 left0)))
                       (\<lambda>res_left. case res_left of Inl e \<Rightarrow> Some (Inl e)
                        | Inr sl \<Rightarrow>
                           (let cur3 = set_left (snd sl) cur2;
                                right0 = new_node (sum_bools train_decisions)
                                           (snd next_values) (depth cur3 + 1) None;
                                self3 = (fst sl)\<lparr>num_nodes := num_nodes (fst sl) + 1\<rparr>
                            in Option.bind
                                 (case is_pure E self3 right0 of Inl e \<Rightarrow> Some (Inl e)
                                  | Inr pure \<Rightarrow>
                                      if \<not> pure \<and> check_criterion self3 right0
                                      then f E self3 right0
                                      else Some (Inr (make_leaf E self3 right0)))
                                 (\<lambda>res_right. case res_right of Inl e \<Rightarrow> Some (Inl e)
                                  | Inr sr \<Rightarrow>
                                      Some (Inr (fst sr, set_right (snd sr) cur3)))))))))))
   = split_body (f E) E self cur"
proof (cases "rows_at (X_s self) (values_n cur)")
  case (Inl e)
  then show ?thesis by (simp add: split_body_def prepare_def)
next
  case X: (Inr X)
  from rows_at_SomeD [OF X] obtain xs where xs: "X_s self = Some xs"
    "list_all (\<lambda>i. i < length xs) (values_n cur)" "X = map (\<lambda>i. xs ! i) (values_n cur)"
    by blast
  show ?thesis
  proof (cases "rows_at (y_s self) (values_n cur)")
    case (Inl e)
    with X show ?thesis by (simp add: split_body_def prepare_def)
  next
    case y: (Inr y)
    show ?thesis
    proof (cases "best_split E X y")
      case (Pair lo bp)
      show ?thesis
      proof (cases bp)
        case None
        with X y Pair show ?thesis by (simp add: split_body_def prepare_def)
      next
        case (Some pv)
        obtain p v where pv: "pv = (p, v)" by (cases pv)
        have vals: "values_n (set_split sp (set_rule lo p v cur)) = values_n cur" for sp
          by (simp add: node_defs)
        show ?thesis
          using X y Pair Some pv xs(1,2)
          by (simp add: split_body_def prepare_def children_def Let_def vals xs(3) comp_def
              next_values_loop_filter grow_def node_defs case_prod_beta cong: if_cong sum.case_cong)
      qed
    qed
  qed
qed

lemma split_node_unfold: "split_node E self cur = split_body (split_node E) E self cur"
  by (subst split_node.simps) (rule body_eq [where f = split_node])

lemma grow_grown:
  assumes "grow f E s c = Some (Inr (s', t))"
    and "\<And>s c s' t. f s c = Some (Inr (s', t)) \<Longrightarrow> P s c s' t"
  shows "grown P E s c s' t"
  using assms by (auto simp: grow_def grown_def split: sum.splits if_splits)

lemma split_body_cases:
  assumes "split_body f E self cur = Some (Inr (self', t))"
  obtains (sealed) "prepare E self cur = Inr None" "(self', t) = make_leaf E self cur"
  | (inner) cur2 left0 right0 self2 l r where
      "prepare E self cur = Inr (Some (cur2, left0, right0))"
      "grow f E (self\<lparr>num_nodes := num_nodes self + 1\<rparr>) left0 = Some (Inr (self2, l))"
      "grow f E (self2\<lparr>num_nodes := num_nodes self2 + 1\<rparr>) right0 = Some (Inr (self', r))"
      "t = set_right r (set_left l cur2)"
  using assms
  by (fastforce simp: split_body_def split: sum.splits option.splits Option.bind_splits)


lemma split_node_induct [consumes 1, case_names sealed inner]:
  assumes ret: "split_node E self cur = Some (Inr (self', t))"
    and sealed: "\<And>self cur self' t. prepare E self cur = Inr None \<Longrightarrow>
        (self', t) = make_leaf E self cur \<Longrightarrow> P self cur self' t"
    and inner: "\<And>self cur cur2 left0 right0 self2 l self4 r.
        prepare E self cur = Inr (Some (cur2, left0, right0)) \<Longrightarrow>
        grown P E (self\<lparr>num_nodes := num_nodes self + 1\<rparr>) left0 self2 l \<Longrightarrow>
        grown P E (self2\<lparr>num_nodes := num_nodes self2 + 1\<rparr>) right0 self4 r \<Longrightarrow>
        P self cur self4 (set_right r (set_left l cur2))"
  shows "P self cur self' t"
proof -
  have "E = E \<longrightarrow> (\<forall>s' t'. (Inr (self', t) :: error + _) = Inr (s', t') \<longrightarrow> P self cur s' t')"
    apply (rule split_node.raw_induct
        [where P = "\<lambda>E' s c res. E' = E \<longrightarrow> (\<forall>s' t'. res = Inr (s', t') \<longrightarrow> P s c s' t')", OF _ ret])
    subgoal premises prems for f E' s c res
    proof (intro impI allI)
      fix s' t'
      assume E': "E' = E" and res: "res = Inr (s', t')"
      have IH: "f E s1 c1 = Some (Inr (s2, t2)) \<Longrightarrow> P s1 c1 s2 t2" for s1 c1 s2 t2
        using prems(1) [of E s1 c1 "Inr (s2, t2)"] by simp
      from prems(2) have "split_body (f E') E' s c = Some res"
        by (simp only: body_eq [where f = f and E = E' and self = s and cur = c])
      then have "split_body (f E) E s c = Some (Inr (s', t'))"
        by (simp only: E' res)
      then show "P s c s' t'"
      proof (cases rule: split_body_cases)
        case sealed
        then show ?thesis by (rule assms(2))
      next
        case (inner cur2 left0 right0 self2 l r)
        from inner(2) IH have "grown P E (s\<lparr>num_nodes := num_nodes s + 1\<rparr>) left0 self2 l"
          by (rule grow_grown)
        moreover from inner(3) IH
        have "grown P E (self2\<lparr>num_nodes := num_nodes self2 + 1\<rparr>) right0 s' r"
          by (rule grow_grown)
        ultimately show ?thesis
          unfolding inner(4) using inner(1) assms(3) by blast
      qed
    qed
    done
  then show ?thesis by simp
qed

lemma grown_cases:
  assumes "grown P E s c s' t"
  obtains (split) "check_criterion s c" "is_pure E s c = Inr False" "P s c s' t"
  | (sealed) "(s', t) = make_leaf E s c"
  using assms by (auto simp: grown_def split: sum.splits if_splits)

lemma prepare_SomeD:
  assumes "prepare E self cur = Inr (Some ch)"
  shows "\<exists>xs ys lo p v. X_s self = Some xs \<and> list_all (\<lambda>i. i < length xs) (values_n cur) \<and>
           y_s self = Some ys \<and> list_all (\<lambda>i. i < length ys) (values_n cur) \<and>
           best_split E (map (\<lambda>i. xs ! i) (values_n cur)) (map (\<lambda>i. ys ! i) (values_n cur)) = (lo, Some (p, v)) \<and>
           ch = children E xs cur lo p v"
  using assms
  by (auto simp: prepare_def rows_at_def split: sum.splits option.splits if_splits prod.splits)

text \<open>
  \<open>_split\<close> changes the two counters of the tree object and nothing else, never lowers
  them, and keeps the sample indices, the size and the depth of the node it was given.
\<close>

lemma split_node_frame:
  assumes "split_node E self cur = Some (Inr (self', t))"
  shows "frame self self' \<and> values_n t = values_n cur \<and> size_n t = size_n cur \<and> depth t = depth cur"
  using assms
proof (induction rule: split_node_induct)
  case (sealed self cur self' t)
  then show ?case by (simp add: make_leaf_eq node_defs frame_def)
next
  case (inner self cur cur2 left0 right0 self2 l self4 r)
  from prepare_SomeD [OF inner(1)] have c2: "values_n cur2 = values_n cur" "size_n cur2 = size_n cur"
    "depth cur2 = depth cur"
    by (auto simp: children_def node_defs Let_def)
  from inner(2) have f1: "frame (self\<lparr>num_nodes := num_nodes self + 1\<rparr>) self2"
    by (cases rule: grown_cases) (simp_all add: make_leaf_eq frame_def)
  from inner(3) have f2: "frame (self2\<lparr>num_nodes := num_nodes self2 + 1\<rparr>) self4"
    by (cases rule: grown_cases) (simp_all add: make_leaf_eq frame_def)
  from f1 f2 c2 show ?case by (simp add: frame_def node_defs)
qed

section \<open>Prediction\<close>

text \<open>
  C9. \<open>predict\<close> on a validated feature matrix with zero rows returns the empty
  prediction array and raises nothing, whatever the state of the tree, also when the
  root is absent: the body of the loop over the rows never runs.
\<close>

theorem predict_zero_rows:
  assumes "validate_feature_matrix E X = Inr []"
  shows "predict E self X = Inr []"
  using assms by (simp add: predict_def)

theorem predict_zero_rows_witness:
  "validate_feature_matrix (E_mid []) [] = Inr [] \<and>
   root (DecisionTree None None None 1 :: (int list, int, int, int) decision_tree) = None \<and>
   predict (E_mid []) (DecisionTree None None None 1) [] = Inr []"
proof -
  have v: "validate_feature_matrix (E_mid []) [] = Inr []"
    by (simp add: E_mid_def)
  from v predict_zero_rows [OF v, of "DecisionTree None None None 1"] show ?thesis
    by (simp add: DecisionTree_def)
qed

end
